theory Spec2Isabelle
  imports Main "HOL-Library.Word"
begin

section \<open>Go types, values and reflection handles\<close>

text \<open>
  The library works on arbitrary Go values through package reflect. A Go type is a finite
  tree here (a recursive struct type is outside this model); a value is a tree as well, a
  pointer being \<open>VPtr None\<close> (nil) or \<open>VPtr (Some v)\<close> (its pointee). Slices and maps are
  lists, a map in the order in which \<open>MapKeys\<close> hands out its keys. Only int32
  storage has numeric content, every other primitive is opaque (\<open>VOther\<close>): the sanitizers
  of the other primitive families are not part of the sources at hand. The one float
  told apart is NaN (\<open>VNaN\<close>), because a map key that holds it cannot be looked up.
\<close>

datatype prim =
    PBool | PInt | PInt8 | PInt16 | PInt32 | PInt64
  | PUint | PUint8 | PUint16 | PUint32 | PUint64 | PUintptr
  | PFloat32 | PFloat64 | PString

datatype kind = KInvalid | KPrim prim | KPtr | KSlice | KMap | KStruct | KOther

datatype gotype =
    TPrim prim
  | TPtr gotype
  | TSlice gotype
  | TMap gotype gotype
  | TStruct string "sfield list"
  | TNamed string gotype
  | TOther string
and sfield = SFieldDecl (f_name: string) (f_exported: bool) (f_tag: string) (f_type: gotype)

datatype val =
    VInt32 "32 word"
  | VNaN
  | VOther string
  | VPtr "val option"
  | VSlice "val list"
  | VMap "(val \<times> val) list"
  | VStruct "val list"

fun primName :: "prim \<Rightarrow> string" where
  "primName PBool = ''bool''"
| "primName PInt = ''int''"
| "primName PInt8 = ''int8''"
| "primName PInt16 = ''int16''"
| "primName PInt32 = ''int32''"
| "primName PInt64 = ''int64''"
| "primName PUint = ''uint''"
| "primName PUint8 = ''uint8''"
| "primName PUint16 = ''uint16''"
| "primName PUint32 = ''uint32''"
| "primName PUint64 = ''uint64''"
| "primName PUintptr = ''uintptr''"
| "primName PFloat32 = ''float32''"
| "primName PFloat64 = ''float64''"
| "primName PString = ''string''"

text \<open>\<open>Type().String()\<close>: a defined type prints its name, a type literal its structure.\<close>

fun typeString :: "gotype \<Rightarrow> string" where
  "typeString (TPrim p) = primName p"
| "typeString (TPtr t) = ''*'' @ typeString t"
| "typeString (TSlice t) = ''[]'' @ typeString t"
| "typeString (TMap k v) = ''map['' @ typeString k @ '']'' @ typeString v"
| "typeString (TStruct n fs) = n"
| "typeString (TNamed n t) = n"
| "typeString (TOther n) = n"

fun underlying :: "gotype \<Rightarrow> gotype" where
  "underlying (TNamed n t) = underlying t"
| "underlying t = t"

fun kindOf :: "gotype \<Rightarrow> kind" where
  "kindOf (TPrim p) = KPrim p"
| "kindOf (TPtr t) = KPtr"
| "kindOf (TSlice t) = KSlice"
| "kindOf (TMap k v) = KMap"
| "kindOf (TStruct n fs) = KStruct"
| "kindOf (TNamed n t) = kindOf t"
| "kindOf (TOther n) = KOther"

fun elemType :: "gotype \<Rightarrow> gotype option" where
  "elemType (TPtr t) = Some t"
| "elemType (TSlice t) = Some t"
| "elemType (TMap k v) = Some v"
| "elemType (TNamed n t) = elemType t"
| "elemType t = None"

fun structFields :: "gotype \<Rightarrow> sfield list option" where
  "structFields (TStruct n fs) = Some fs"
| "structFields (TNamed n t) = structFields t"
| "structFields t = None"

text \<open>The element type of a pointer, slice or map type (\<open>Type().Elem()\<close>).\<close>

definition elemOf :: "gotype \<Rightarrow> gotype" where
  "elemOf t = (case elemType t of Some e \<Rightarrow> e | None \<Rightarrow> TOther [])"

subsection \<open>Storage and handles\<close>

text \<open>
  A \<open>reflect.Value\<close> is a handle: the static type, the place it designates inside the value
  the caller holds (a path of steps), and the two flags that decide whether it may be
  written, \<open>flagAddr\<close> and \<open>flagRO\<close>. Reading and writing go through the path, so two
  handles with the same path designate the same storage.
\<close>

datatype step = SField nat | SDeref | SIndex nat

fun load :: "val \<Rightarrow> step list \<Rightarrow> val option" where
  "load v [] = Some v"
| "load (VStruct fs) (SField i # p) = (if i < length fs then load (fs ! i) p else None)"
| "load (VPtr (Some v)) (SDeref # p) = load v p"
| "load (VSlice xs) (SIndex i # p) = (if i < length xs then load (xs ! i) p else None)"
| "load v (s # p) = None"

fun store :: "val \<Rightarrow> step list \<Rightarrow> val \<Rightarrow> val" where
  "store v [] x = x"
| "store (VStruct fs) (SField i # p) x =
     (if i < length fs then VStruct (fs[i := store (fs ! i) p x]) else VStruct fs)"
| "store (VPtr (Some v)) (SDeref # p) x = VPtr (Some (store v p x))"
| "store (VSlice xs) (SIndex i # p) x =
     (if i < length xs then VSlice (xs[i := store (xs ! i) p x]) else VSlice xs)"
| "store v (s # p) x = v"

record rvalue =
  rv_type :: gotype
  rv_loc :: "step list"
  rv_addr :: bool
  rv_ro :: bool

definition Kind :: "rvalue \<Rightarrow> kind" where
  "Kind h = kindOf (rv_type h)"

definition CanAddr :: "rvalue \<Rightarrow> bool" where
  "CanAddr h = rv_addr h"

definition CanSet :: "rvalue \<Rightarrow> bool" where
  "CanSet h = (rv_addr h \<and> \<not> rv_ro h)"

definition IsNil :: "val \<Rightarrow> rvalue \<Rightarrow> bool" where
  "IsNil st h = (load st (rv_loc h) = Some (VPtr None))"

text \<open>\<open>Value.Elem\<close> of a non-nil pointer: addressable, read-only as the pointer was.\<close>

definition Elem :: "rvalue \<Rightarrow> rvalue" where
  "Elem h = \<lparr>rv_type = elemOf (rv_type h),
             rv_loc = rv_loc h @ [SDeref], rv_addr = True, rv_ro = rv_ro h\<rparr>"

text \<open>\<open>Value.Index\<close> of a slice: addressable, read-only as the slice was.\<close>

definition Index :: "rvalue \<Rightarrow> nat \<Rightarrow> rvalue" where
  "Index h i = \<lparr>rv_type = elemOf (rv_type h),
               rv_loc = rv_loc h @ [SIndex i], rv_addr = True, rv_ro = rv_ro h\<rparr>"

text \<open>\<open>Value.Len\<close> of a slice or map.\<close>

definition Len :: "val \<Rightarrow> rvalue \<Rightarrow> nat" where
  "Len st h = (case load st (rv_loc h) of
                 Some (VSlice xs) \<Rightarrow> length xs
               | Some (VMap kvs) \<Rightarrow> length kvs
               | _ \<Rightarrow> 0)"

text \<open>
  \<open>Value.MapIndex\<close> for a key that \<open>MapKeys\<close> handed out: the stored value, a copy
  that is not addressable. A key that holds NaN (a float, or a struct with such a field)
  is equal to no key, itself included: the lookup finds nothing and yields the zero
  \<open>reflect.Value\<close> (\<open>None\<close>).
\<close>

fun holdsNaN :: "val \<Rightarrow> bool" where
  "holdsNaN VNaN = True"
| "holdsNaN (VStruct vs) = list_ex holdsNaN vs"
| "holdsNaN v = False"

definition MapIndex :: "val \<Rightarrow> val \<Rightarrow> val option" where
  "MapIndex k x = (if holdsNaN k then None else Some x)"

text \<open>
  \<open>Value.Field\<close>: panics (\<open>None\<close>) on a non-struct or an index out of range; the field is
  addressable when the struct is, and read-only when it is unexported or the struct was.
\<close>

definition Field :: "rvalue \<Rightarrow> nat \<Rightarrow> rvalue option" where
  "Field h i =
     (case structFields (rv_type h) of
        None \<Rightarrow> None
      | Some fs \<Rightarrow>
          if i < length fs
          then Some \<lparr>rv_type = f_type (fs ! i), rv_loc = rv_loc h @ [SField i],
                     rv_addr = rv_addr h, rv_ro = (rv_ro h \<or> \<not> f_exported (fs ! i))\<rparr>
          else None)"

section \<open>The accessor (GetUnexportedField)\<close>

text \<open>
  \<open>reflect.NewAt(field.Type(), unsafe.Pointer(field.UnsafeAddr())).Elem()\<close> is a handle of
  the same type at the same address that is addressable and not read-only;
  \<open>UnsafeAddr\<close> panics on a handle that is not addressable.
\<close>

definition NewAtElem :: "rvalue \<Rightarrow> rvalue option" where
  "NewAtElem h = (if CanAddr h then Some (h\<lparr>rv_addr := True, rv_ro := False\<rparr>) else None)"

text \<open>The sources hold two versions of the accessor; \<open>None\<close> is a panic.\<close>

definition GetUnexportedField_000 :: "val \<Rightarrow> rvalue \<Rightarrow> rvalue option" where
  "GetUnexportedField_000 st field = NewAtElem field"

definition GetUnexportedField_001 :: "val \<Rightarrow> rvalue \<Rightarrow> rvalue option" where
  "GetUnexportedField_001 st field =
     (if \<not> CanAddr field then Some field
      else let field = (if Kind field = KPtr \<and> \<not> IsNil st field then Elem field else field)
           in NewAtElem field)"

datatype accessor = Part000 | Part001

fun GetUnexportedField :: "accessor \<Rightarrow> val \<Rightarrow> rvalue \<Rightarrow> rvalue option" where
  "GetUnexportedField Part000 st field = GetUnexportedField_000 st field"
| "GetUnexportedField Part001 st field = GetUnexportedField_001 st field"

section \<open>Errors, outcomes and the parts taken as parameters\<close>

datatype error =
    ParseError string
  | MaxLessThanMin
  | MinMaxBelowZero
  | DefHigherThanMax "32 word" "32 word"
  | DefLowerThanMin "32 word" "32 word"
  | SanitizeFnNotFound string
  | CannotGetSanitizeFn string
  | Wrap error error
  | External string

text \<open>A call returns nil (\<open>Ok\<close>), returns an error, or panics.\<close>

datatype outcome = Ok | Err error | Panic

record Sanitizer =
  tagName :: string
  dateInput :: "string list"
  dateKeepFormat :: bool
  dateOutput :: string

text \<open>The names of the field sanitizers the dispatch table holds, and of registered ones.\<close>

datatype sanFn =
    SanitizeStrField | SanitizeIntField | SanitizeInt8Field | SanitizeInt16Field
  | SanitizeInt32Field | SanitizeInt64Field | SanitizeUintField | SanitizeUint8Field
  | SanitizeUint16Field | SanitizeUint32Field | SanitizeUint64Field
  | SanitizeFloat32Field | SanitizeFloat64Field | SanitizeBoolField
  | SanitizeSliceField
  | Registered nat

text \<open>
  A field sanitizer (\<open>fieldSanFn\<close>) gets the sanitizer, the handle of the struct, the
  storage and the field index, and hands back its outcome and the storage.

  The sources at hand hold \<open>sanitizeInt32Field\<close> only. The tag parser \<open>fieldTags\<close>, the
  number parser \<open>parseInt32\<close>, and every other field sanitizer (\<open>sanitizeSliceField\<close>
  and caller-registered functions included) are parameters, collected in \<open>env\<close>.
\<close>

type_synonym fieldSanFn = "Sanitizer \<Rightarrow> rvalue \<Rightarrow> val \<Rightarrow> nat \<Rightarrow> outcome \<times> val"

record env =
  fieldTags :: "Sanitizer \<Rightarrow> string \<Rightarrow> (string \<Rightarrow> string option)"
  parseInt32 :: "string \<Rightarrow> error + 32 word"
  external :: "sanFn \<Rightarrow> fieldSanFn"

section \<open>sanitizeInt32Field\<close>

text \<open>\<open>Value.Int\<close> on int32 storage; a panic (\<open>None\<close>) elsewhere.\<close>

definition ValueInt :: "val \<Rightarrow> rvalue \<Rightarrow> int option" where
  "ValueInt st h =
     (if Kind h = KPrim PInt32
      then (case load st (rv_loc h) of Some (VInt32 w) \<Rightarrow> Some (sint w) | _ \<Rightarrow> None)
      else None)"

text \<open>\<open>Value.SetInt\<close>: needs a settable handle, stores the number cut to the width.\<close>

definition SetInt :: "val \<Rightarrow> rvalue \<Rightarrow> int \<Rightarrow> val option" where
  "SetInt st h x =
     (if CanSet h \<and> Kind h = KPrim PInt32
      then Some (store st (rv_loc h) (VInt32 (word_of_int x)))
      else None)"

text \<open>
  \<open>field.Set(reflect.ValueOf(&def))\<close>: needs a settable handle whose type a \<open>*int32\<close>
  can be assigned to; the field then points at a fresh copy of \<open>def\<close>.
\<close>

definition SetPtrDef :: "val \<Rightarrow> rvalue \<Rightarrow> 32 word \<Rightarrow> val option" where
  "SetPtrDef st h d =
     (if CanSet h \<and> underlying (rv_type h) = TPtr (TPrim PInt32)
      then Some (store st (rv_loc h) (VPtr (Some (VInt32 d))))
      else None)"

text \<open>Lines 116-121 and 122-127 of int32.go: the two bound transforms on one element.\<close>

definition applyMin :: "bool \<Rightarrow> 32 word \<Rightarrow> rvalue \<Rightarrow> val \<Rightarrow> val option" where
  "applyMin hasMin mn field st =
     (if hasMin
      then (case ValueInt st field of
              None \<Rightarrow> None
            | Some oldNum \<Rightarrow>
                if sint mn > sint (word_of_int oldNum :: 32 word)
                then SetInt st field (sint mn) else Some st)
      else Some st)"

definition applyMax :: "bool \<Rightarrow> 32 word \<Rightarrow> rvalue \<Rightarrow> val \<Rightarrow> val option" where
  "applyMax hasMax mx field st =
     (if hasMax
      then (case ValueInt st field of
              None \<Rightarrow> None
            | Some oldNum \<Rightarrow>
                if sint mx < sint (word_of_int oldNum :: 32 word)
                then SetInt st field (sint mx) else Some st)
      else Some st)"

text \<open>Lines 96-128: the loop over the elements; both nil-pointer branches return.\<close>

fun int32Loop ::
  "bool \<Rightarrow> 32 word \<Rightarrow> bool \<Rightarrow> 32 word \<Rightarrow> bool \<Rightarrow> 32 word \<Rightarrow> rvalue list \<Rightarrow> val
     \<Rightarrow> outcome \<times> val" where
  "int32Loop hasMin mn hasMax mx hasDef df [] st = (Ok, st)"
| "int32Loop hasMin mn hasMax mx hasDef df (field # rest) st =
     (let isPtr = (Kind field = KPtr) in
      if isPtr \<and> IsNil st field \<and> hasDef then
        (case SetPtrDef st field df of None \<Rightarrow> (Panic, st) | Some st' \<Rightarrow> (Ok, st'))
      else if isPtr \<and> IsNil st field \<and> \<not> hasDef then (Ok, st)
      else
        let field = (if isPtr \<and> \<not> IsNil st field then Elem field else field) in
        case applyMin hasMin mn field st of
          None \<Rightarrow> (Panic, st)
        | Some st1 \<Rightarrow>
            (case applyMax hasMax mx field st1 of
               None \<Rightarrow> (Panic, st1)
             | Some st2 \<Rightarrow> int32Loop hasMin mn hasMax mx hasDef df rest st2))"

text \<open>
  \<open>_, has := tags[k]; x := int32(0); if has { x, err = parseInt32(tags[k]); ... }\<close>
\<close>

definition parseTag :: "env \<Rightarrow> string option \<Rightarrow> error + (bool \<times> 32 word)" where
  "parseTag E t =
     (case t of
        None \<Rightarrow> Inr (False, 0)
      | Some s \<Rightarrow> (case parseInt32 E s of Inl e \<Rightarrow> Inl e | Inr x \<Rightarrow> Inr (True, x)))"

definition FieldTag :: "rvalue \<Rightarrow> nat \<Rightarrow> string option" where
  "FieldTag h i =
     (case structFields (rv_type h) of
        None \<Rightarrow> None
      | Some fs \<Rightarrow> if i < length fs then Some (f_tag (fs ! i)) else None)"

text \<open>Lines 16-29: the handles the loop runs over.\<close>

definition targetFields :: "val \<Rightarrow> rvalue \<Rightarrow> rvalue list" where
  "targetFields st fieldValue0 =
     (let fieldValue = (if Kind fieldValue0 = KPtr \<and> \<not> IsNil st fieldValue0
                        then Elem fieldValue0 else fieldValue0);
          isSlice = (Kind fieldValue = KSlice)
      in if \<not> isSlice then [fieldValue]
         else map (Index fieldValue) [0 ..< Len st fieldValue])"

text \<open>
  Lines 31-94: the directives \<open>min\<close>, \<open>max\<close> and \<open>def\<close>, each with its flag,
  or the first error.
\<close>

definition parseDirectives ::
  "env \<Rightarrow> (string \<Rightarrow> string option)
     \<Rightarrow> error + ((bool \<times> 32 word) \<times> (bool \<times> 32 word) \<times> (bool \<times> 32 word))" where
  "parseDirectives E tags =
     (case parseTag E (tags ''min'') of
        Inl e \<Rightarrow> Inl e
      | Inr (hasMin, mn) \<Rightarrow>
     (case parseTag E (tags ''max'') of
        Inl e \<Rightarrow> Inl e
      | Inr (hasMax, mx) \<Rightarrow>
      if hasMax \<and> hasMin \<and> sint mx < sint mn then Inl MaxLessThanMin
      else if (hasMin \<and> sint mn < 0) \<or> (hasMax \<and> sint mx < 0) then Inl MinMaxBelowZero
      else
     (case parseTag E (tags ''def'') of
        Inl e \<Rightarrow> Inl e
      | Inr (hasDef, df) \<Rightarrow>
      if hasDef \<and> hasMax \<and> sint df > sint mx then Inl (DefHigherThanMax df mx)
      else if hasDef \<and> hasMin \<and> sint df < sint mn then Inl (DefLowerThanMin df mn)
      else Inr ((hasMin, mn), (hasMax, mx), (hasDef, df)))))"

definition sanitizeInt32Field :: "accessor \<Rightarrow> env \<Rightarrow> fieldSanFn" where
  "sanitizeInt32Field acc E s structValue st idx =
     (case Field structValue idx of
        None \<Rightarrow> (Panic, st)
      | Some f \<Rightarrow>
     (case GetUnexportedField acc st f of
        None \<Rightarrow> (Panic, st)
      | Some fieldValue0 \<Rightarrow>
     (case FieldTag structValue idx of
        None \<Rightarrow> (Panic, st)
      | Some tag \<Rightarrow>
     (case parseDirectives E (fieldTags E s tag) of
        Inl e \<Rightarrow> (Err e, st)
      | Inr ((hasMin, mn), (hasMax, mx), (hasDef, df)) \<Rightarrow>
          int32Loop hasMin mn hasMax mx hasDef df (targetFields st fieldValue0) st))))"

section \<open>The dispatch table\<close>

text \<open>The table \<open>fieldSanFns\<close> as it is initialised; \<open>RegisterSanitizer\<close> updates it.\<close>

definition fieldSanFnsList :: "(string \<times> sanFn) list" where
  "fieldSanFnsList = [
    (''string'', SanitizeStrField), (''[]string'', SanitizeStrField),
    (''*[]string'', SanitizeStrField), (''*string'', SanitizeStrField),
    (''[]*string'', SanitizeStrField), (''*[]*string'', SanitizeStrField),
    (''int'', SanitizeIntField), (''[]int'', SanitizeIntField),
    (''*[]int'', SanitizeIntField), (''*int'', SanitizeIntField),
    (''[]*int'', SanitizeIntField), (''*[]*int'', SanitizeIntField),
    (''int8'', SanitizeInt8Field), (''[]int8'', SanitizeInt8Field),
    (''*[]int8'', SanitizeInt8Field), (''*int8'', SanitizeInt8Field),
    (''[]*int8'', SanitizeInt8Field), (''*[]*int8'', SanitizeInt8Field),
    (''int16'', SanitizeInt16Field), (''[]int16'', SanitizeInt16Field),
    (''*[]int16'', SanitizeInt16Field), (''*int16'', SanitizeInt16Field),
    (''[]*int16'', SanitizeInt16Field), (''*[]*int16'', SanitizeInt16Field),
    (''int32'', SanitizeInt32Field), (''[]int32'', SanitizeInt32Field),
    (''*[]int32'', SanitizeInt32Field), (''*int32'', SanitizeInt32Field),
    (''[]*int32'', SanitizeInt32Field), (''*[]*int32'', SanitizeInt32Field),
    (''int64'', SanitizeInt64Field), (''[]int64'', SanitizeInt64Field),
    (''*[]int64'', SanitizeInt64Field), (''*int64'', SanitizeInt64Field),
    (''[]*int64'', SanitizeInt64Field), (''*[]*int64'', SanitizeInt64Field),
    (''uint'', SanitizeUintField), (''[]uint'', SanitizeUintField),
    (''*[]uint'', SanitizeUintField), (''*uint'', SanitizeUintField),
    (''[]*uint'', SanitizeUintField), (''*[]*uint'', SanitizeUintField),
    (''uint8'', SanitizeUint8Field), (''[]uint8'', SanitizeUint8Field),
    (''*[]uint8'', SanitizeUint8Field), (''*uint8'', SanitizeUint8Field),
    (''[]*uint8'', SanitizeUint8Field), (''*[]*uint8'', SanitizeUint8Field),
    (''uint16'', SanitizeUint16Field), (''[]uint16'', SanitizeUint16Field),
    (''*[]uint16'', SanitizeUint16Field), (''*uint16'', SanitizeUint16Field),
    (''[]*uint16'', SanitizeUint16Field), (''*[]*uint16'', SanitizeUint16Field),
    (''uint32'', SanitizeUint32Field), (''[]uint32'', SanitizeUint32Field),
    (''*[]uint32'', SanitizeUint32Field), (''*uint32'', SanitizeUint32Field),
    (''[]*uint32'', SanitizeUint32Field), (''*[]*uint32'', SanitizeUint32Field),
    (''uint64'', SanitizeUint64Field), (''[]uint64'', SanitizeUint64Field),
    (''*[]uint64'', SanitizeUint64Field), (''*uint64'', SanitizeUint64Field),
    (''[]*uint64'', SanitizeUint64Field), (''*[]*uint64'', SanitizeUint64Field),
    (''float32'', SanitizeFloat32Field), (''[]float32'', SanitizeFloat32Field),
    (''*[]float32'', SanitizeFloat32Field), (''*float32'', SanitizeFloat32Field),
    (''[]*float32'', SanitizeFloat32Field), (''*[]*float32'', SanitizeFloat32Field),
    (''float64'', SanitizeFloat64Field), (''[]float64'', SanitizeFloat64Field),
    (''*[]float64'', SanitizeFloat64Field), (''*float64'', SanitizeFloat64Field),
    (''[]*float64'', SanitizeFloat64Field), (''*[]*float64'', SanitizeFloat64Field),
    (''bool'', SanitizeBoolField), (''[]bool'', SanitizeBoolField),
    (''*[]bool'', SanitizeBoolField), (''*bool'', SanitizeBoolField),
    (''[]*bool'', SanitizeBoolField), (''*[]*bool'', SanitizeBoolField)]"

definition fieldSanFns :: "string \<Rightarrow> sanFn option" where
  "fieldSanFns = map_of fieldSanFnsList"

text \<open>
  An \<open>interface{}\<close> argument: nil (\<open>None\<close>) or a dynamic type with its value.
  \<open>getValue\<close> looks through one pointer; behind a nil pointer, and for nil, it yields the
  zero \<open>reflect.Value\<close> (\<open>None\<close>), whose \<open>Kind\<close> is \<open>Invalid\<close> and whose
  \<open>Type\<close> panics.
\<close>

type_synonym iface = "(gotype \<times> val) option"

definition getValue :: "iface \<Rightarrow> (gotype \<times> val) option" where
  "getValue sanType =
     (case sanType of
        None \<Rightarrow> None
      | Some (t, v) \<Rightarrow>
          if kindOf t = KPtr
          then (case v of VPtr (Some p) \<Rightarrow> Some (elemOf t, p) | _ \<Rightarrow> None)
          else Some (t, v))"

definition RegisterSanitizer ::
  "(string \<Rightarrow> sanFn option) \<Rightarrow> iface \<Rightarrow> sanFn \<Rightarrow> (string \<Rightarrow> sanFn option) option" where
  "RegisterSanitizer funcMap sanType function =
     (case getValue sanType of
        None \<Rightarrow> None
      | Some (t, v) \<Rightarrow> Some (funcMap(typeString t \<mapsto> function)))"


text \<open>
  \<open>Value.CanConvert\<close> to \<open>string\<close>: strings, the integer kinds (\<open>uintptr\<close>
  among them), and slices of bytes or
  runes whose element type is predeclared. The second test of \<open>getFieldFunc\<close> asks for a
  conversion to the unexported type behind \<open>reflect.Type\<close>, which no field type admits.
\<close>

fun intOrStringPrim :: "prim \<Rightarrow> bool" where
  "intOrStringPrim PBool = False"
| "intOrStringPrim PFloat32 = False"
| "intOrStringPrim PFloat64 = False"
| "intOrStringPrim p = True"

definition canConvertString :: "gotype \<Rightarrow> bool" where
  "canConvertString t =
     (case kindOf t of
        KPrim p \<Rightarrow> intOrStringPrim p
      | KSlice \<Rightarrow> elemOf t = TPrim PUint8 \<or> elemOf t = TPrim PInt32
      | _ \<Rightarrow> False)"

text \<open>
  \<open>getFieldFunc\<close>: \<open>Inr None\<close> is the nil function that \<open>funcMap["string"]\<close> yields
  without an error when that entry is missing.
\<close>

definition getFieldFunc ::
  "rvalue \<Rightarrow> (string \<Rightarrow> sanFn option) \<Rightarrow> error + sanFn option" where
  "getFieldFunc v funcMap =
     (let ftype = typeString (rv_type v) in
      case funcMap ftype of
        Some fn \<Rightarrow> Inr (Some fn)
      | None \<Rightarrow>
          if canConvertString (rv_type v) then Inr (funcMap ''string'')
          else Inl (CannotGetSanitizeFn ftype))"

section \<open>The traversal (sanitizeRec)\<close>

text \<open>
  What a traversal carries along: the accessor version in use, the parameters, the dispatch
  table as it stands, and the receiver.
\<close>

record ctx =
  c_acc :: accessor
  c_env :: env
  c_funcMap :: "string \<Rightarrow> sanFn option"
  c_san :: Sanitizer

text \<open>Calling a field sanitizer by its name; the nil function panics.\<close>

definition callSan :: "ctx \<Rightarrow> sanFn option \<Rightarrow> rvalue \<Rightarrow> val \<Rightarrow> nat \<Rightarrow> outcome \<times> val" where
  "callSan c fn structValue st idx =
     (case fn of
        None \<Rightarrow> (Panic, st)
      | Some SanitizeInt32Field \<Rightarrow>
          sanitizeInt32Field (c_acc c) (c_env c) (c_san c) structValue st idx
      | Some f \<Rightarrow> external (c_env c) f (c_san c) structValue st idx)"

text \<open>\<open>field.Elem().Kind()\<close> of a pointer field: \<open>Invalid\<close> behind a nil pointer.\<close>

definition ElemKind :: "val \<Rightarrow> rvalue \<Rightarrow> kind" where
  "ElemKind st h = (if IsNil st h then KInvalid else Kind (Elem h))"

text \<open>
  A nested call works on the storage below the handle it is given, and whatever it wrote
  is seen through the enclosing value: \<open>within st p f\<close> runs \<open>f\<close> on the value at
  path \<open>p\<close> and puts the result back.
\<close>

definition within :: "val \<Rightarrow> step list \<Rightarrow> (val \<Rightarrow> outcome \<times> val) \<Rightarrow> outcome \<times> val" where
  "within st p f =
     (case load st p of
        None \<Rightarrow> (Panic, st)
      | Some sub \<Rightarrow> (case f sub of (r, sub') \<Rightarrow> (r, store st p sub')))"

lemma within_cong [fundef_cong]:
  "st = st' \<Longrightarrow> p = p' \<Longrightarrow> (\<And>sub. load st' p' = Some sub \<Longrightarrow> f sub = g sub)
     \<Longrightarrow> within st p f = within st' p' g"
  by (auto simp: within_def split: option.splits)

lemma size_elemOf [termination_simp]:
  "kindOf t = KPtr \<or> kindOf t = KSlice \<or> kindOf t = KMap \<Longrightarrow> size (elemOf t) < size t"
  by (induction t rule: kindOf.induct) (auto simp: elemOf_def)

lemma size_structFields:
  "structFields t = Some fs \<Longrightarrow> i < length fs \<Longrightarrow> size (f_type (fs ! i)) < size t"
proof (induction t rule: structFields.induct)
  case (1 n fs')
  then have "fs ! i \<in> set fs" by simp
  then have "size (fs ! i) \<le> size_list size fs"
    by (simp add: size_list_estimation')
  moreover have "size (f_type (fs ! i)) < size (fs ! i)"
    by (cases "fs ! i") simp
  ultimately show ?case using 1 by simp
qed auto

text \<open>\<open>if err != nil { return err }\<close>: go on only after a nil error.\<close>

definition andThen :: "outcome \<times> 'a \<Rightarrow> ('a \<Rightarrow> outcome \<times> 'a) \<Rightarrow> outcome \<times> 'a" where
  "andThen r f = (case r of (Ok, v) \<Rightarrow> f v | (e, v) \<Rightarrow> (e, v))"

lemma andThen_cong [fundef_cong]:
  "r = r' \<Longrightarrow> (\<And>v. r' = (Ok, v) \<Longrightarrow> f v = g v) \<Longrightarrow> andThen r f = andThen r' g"
  by (auto simp: andThen_def split: prod.splits outcome.splits)

text \<open>The loops over the elements of a slice and the values of a map, put back likewise.\<close>

definition onSlice :: "val \<Rightarrow> step list \<Rightarrow> (val list \<Rightarrow> outcome \<times> val list) \<Rightarrow> outcome \<times> val" where
  "onSlice st p f =
     (case load st p of
        Some (VSlice xs) \<Rightarrow> (case f xs of (r, xs') \<Rightarrow> (r, store st p (VSlice xs')))
      | _ \<Rightarrow> (Panic, st))"

definition onMap ::
  "val \<Rightarrow> step list \<Rightarrow> ((val \<times> val) list \<Rightarrow> outcome \<times> (val \<times> val) list) \<Rightarrow> outcome \<times> val" where
  "onMap st p f =
     (case load st p of
        Some (VMap kvs) \<Rightarrow> (case f kvs of (r, kvs') \<Rightarrow> (r, store st p (VMap kvs')))
      | _ \<Rightarrow> (Panic, st))"

lemma onSlice_cong [fundef_cong]:
  "st = st' \<Longrightarrow> p = p' \<Longrightarrow> (\<And>xs. load st' p' = Some (VSlice xs) \<Longrightarrow> f xs = g xs)
     \<Longrightarrow> onSlice st p f = onSlice st' p' g"
  by (auto simp: onSlice_def split: option.splits val.splits)

lemma onMap_cong [fundef_cong]:
  "st = st' \<Longrightarrow> p = p' \<Longrightarrow> (\<And>xs. load st' p' = Some (VMap xs) \<Longrightarrow> f xs = g xs)
     \<Longrightarrow> onMap st p f = onMap st' p' g"
  by (auto simp: onMap_def split: option.splits val.splits)

definition NumField :: "gotype \<Rightarrow> nat" where
  "NumField t = (case structFields t of Some fs \<Rightarrow> length fs | None \<Rightarrow> 0)"

lemma size_field:
  "structFields t = Some fs \<Longrightarrow> \<not> length fs \<le> i \<Longrightarrow> size (f_type (fs ! i)) < size t"
  by (simp add: size_structFields)

lemma size_field_elem:
  "structFields t = Some fs \<Longrightarrow> \<not> length fs \<le> i
     \<Longrightarrow> kindOf (f_type (fs ! i)) = KPtr \<or> kindOf (f_type (fs ! i)) = KSlice
           \<or> kindOf (f_type (fs ! i)) = KMap
     \<Longrightarrow> size (elemOf (f_type (fs ! i))) < size t"
  using size_elemOf [of "f_type (fs ! i)"] size_field [of t fs i] by linarith

lemma size_field_elem_elem:
  "structFields t = Some fs \<Longrightarrow> \<not> length fs \<le> i
     \<Longrightarrow> kindOf (f_type (fs ! i)) = KPtr
     \<Longrightarrow> kindOf (elemOf (f_type (fs ! i))) = KSlice \<or> kindOf (elemOf (f_type (fs ! i))) = KMap
     \<Longrightarrow> size (elemOf (elemOf (f_type (fs ! i)))) < size t"
  using size_elemOf [of "elemOf (f_type (fs ! i))"] size_field_elem [of t fs i] by linarith

text \<open>
  \<open>sanitizeRec\<close> with its loops: \<open>recFields\<close> is the loop over the fields from
  index \<open>i\<close> on, \<open>recElems\<close> and \<open>recValues\<close> are the loops over the elements
  of a slice and the values of a map (in the order of \<open>MapKeys\<close>), \<open>recElem\<close> is
  their common body. The arguments \<open>addr\<close> and \<open>ro\<close> are the flags of the handle,
  \<open>t\<close> its type and \<open>v\<close> the storage below it. A slice element is addressable, a
  map value (\<open>MapIndex\<close>) is not, a pointee always is. The zero \<open>reflect.Value\<close>
  that \<open>MapIndex\<close> yields for a NaN key is of kind \<open>Invalid\<close>: the loop goes on.
\<close>

function
  sanitizeRec :: "ctx \<Rightarrow> bool \<Rightarrow> bool \<Rightarrow> gotype \<Rightarrow> val \<Rightarrow> outcome \<times> val"
  and recFields :: "ctx \<Rightarrow> bool \<Rightarrow> bool \<Rightarrow> gotype \<Rightarrow> nat \<Rightarrow> val \<Rightarrow> outcome \<times> val"
  and recElem :: "ctx \<Rightarrow> bool \<Rightarrow> bool \<Rightarrow> gotype \<Rightarrow> val \<Rightarrow> outcome \<times> val"
  and recElems :: "ctx \<Rightarrow> bool \<Rightarrow> gotype \<Rightarrow> val list \<Rightarrow> outcome \<times> val list"
  and recValues :: "ctx \<Rightarrow> bool \<Rightarrow> gotype \<Rightarrow> (val \<times> val) list \<Rightarrow> outcome \<times> (val \<times> val) list"
where
  "sanitizeRec c addr ro t v = recFields c addr ro t 0 v"
| "recFields c addr ro t i v =
    (case structFields t of
       None \<Rightarrow> (Panic, v)
     | Some fs \<Rightarrow>
       if length fs \<le> i then (Ok, v)
       else
         let structValue = \<lparr>rv_type = t, rv_loc = [], rv_addr = addr, rv_ro = ro\<rparr>;
             field = \<lparr>rv_type = f_type (fs ! i), rv_loc = [SField i], rv_addr = addr,
                      rv_ro = (ro \<or> \<not> f_exported (fs ! i))\<rparr>;
             fkind = Kind field;
             isPtrToSlice = (fkind = KPtr \<and> ElemKind v field = KSlice);
             isSlice = (fkind = KSlice)
         in
         andThen (if isSlice \<or> isPtrToSlice
                  then callSan c (Some SanitizeSliceField) structValue v i else (Ok, v))
         (\<lambda>v1.
           let isPtrToMap = (fkind = KPtr \<and> ElemKind v1 field = KMap);
               isMap = (fkind = KMap)
           in
           andThen (case getFieldFunc field (c_funcMap c) of
                      Inr sanFn \<Rightarrow> callSan c sanFn structValue v1 i
                    | Inl fErr \<Rightarrow> (Ok, v1))
           (\<lambda>v2.
             let isPtrToStruct = (fkind = KPtr \<and> ElemKind v2 field = KStruct) in
             if fkind = KStruct \<or> isPtrToStruct then
               (let field' = (if isPtrToStruct then Elem field else field) in
                andThen (within v2 (rv_loc field')
                           (sanitizeRec c (rv_addr field') (rv_ro field') (rv_type field')))
                  (recFields c addr ro t (Suc i)))
             else if isSlice \<or> isPtrToSlice then
               (let field' = (if isPtrToSlice then Elem field else field) in
                andThen (onSlice v2 (rv_loc field') (recElems c (rv_ro field') (elemOf (rv_type field'))))
                  (recFields c addr ro t (Suc i)))
             else if isMap \<or> isPtrToMap then
               (let field' = (if isPtrToMap then Elem field else field) in
                andThen (onMap v2 (rv_loc field') (recValues c (rv_ro field') (elemOf (rv_type field'))))
                  (recFields c addr ro t (Suc i)))
             else recFields c addr ro t (Suc i) v2)))"
| "recElem c addr ro et x =
    (if kindOf et = KPtr then
       (case x of
          VPtr (Some p) \<Rightarrow>
            if kindOf (elemOf et) = KStruct
            then (case sanitizeRec c True ro (elemOf et) p of (r, p') \<Rightarrow> (r, VPtr (Some p')))
            else (Ok, x)
        | _ \<Rightarrow> (Ok, x))
     else if kindOf et = KStruct then sanitizeRec c addr ro et x
     else (Ok, x))"
| "recElems c ro et [] = (Ok, [])"
| "recElems c ro et (x # xs) =
    (case recElem c True ro et x of
       (r, x') \<Rightarrow>
         if r = Ok then (case recElems c ro et xs of (r', xs') \<Rightarrow> (r', x' # xs'))
         else (r, x' # xs))"
| "recValues c ro et [] = (Ok, [])"
| "recValues c ro et ((k, x) # kvs) =
    (case MapIndex k x of
       None \<Rightarrow> (case recValues c ro et kvs of (r', kvs') \<Rightarrow> (r', (k, x) # kvs'))
     | Some f \<Rightarrow>
         (case recElem c False ro et f of
            (r, x') \<Rightarrow>
              if r = Ok then (case recValues c ro et kvs of (r', kvs') \<Rightarrow> (r', (k, x') # kvs'))
              else (r, (k, x') # kvs)))"
  by pat_completeness auto
termination
  apply (relation "inv_image (less_than <*lex*> less_than)
     (\<lambda>x. case x of
        Inl (Inl (c, addr, ro, t, v)) \<Rightarrow> (size t, NumField t + 1)
      | Inl (Inr (c, addr, ro, t, i, v)) \<Rightarrow> (size t, NumField t - i)
      | Inr (Inl (c, addr, ro, et, x)) \<Rightarrow> (size et, NumField et + 2)
      | Inr (Inr (Inl (c, ro, et, xs))) \<Rightarrow> (size et, NumField et + 3 + length xs)
      | Inr (Inr (Inr (c, ro, et, kvs))) \<Rightarrow> (size et, NumField et + 3 + length kvs))")
  apply (auto simp: NumField_def Kind_def Elem_def ElemKind_def size_elemOf size_field
      size_field_elem size_field_elem_elem split: if_splits)
  done

declare sanitizeRec.simps [simp del] recFields.simps [simp del] recElem.simps [simp del]

section \<open>The entry point (Sanitize)\<close>

definition isValid :: "iface \<Rightarrow> bool" where
  "isValid st =
     (case st of
        None \<Rightarrow> False
      | Some (t, v) \<Rightarrow>
          (case getValue st of
             None \<Rightarrow> False
           | Some (vt, vv) \<Rightarrow>
               if kindOf vt \<noteq> KStruct then False
               else if \<not> (kindOf t = KPtr) \<or> v = VPtr None then False
               else True))"

text \<open>Writing the container \<open>getValue\<close> looked at back into the argument.\<close>

definition putValue :: "iface \<Rightarrow> val \<Rightarrow> iface" where
  "putValue st vv =
     (case st of
        None \<Rightarrow> None
      | Some (t, v) \<Rightarrow> if kindOf t = KPtr then Some (t, VPtr (Some vv)) else Some (t, vv))"

lemma size_elemOf_elemOf:
  "kindOf t = KPtr \<Longrightarrow> kindOf (elemOf t) = KSlice \<or> kindOf (elemOf t) = KMap
     \<Longrightarrow> size (elemOf (elemOf t)) < size t"
  using size_elemOf [of "elemOf t"] size_elemOf [of t] by linarith

definition tsize :: "iface \<Rightarrow> nat" where
  "tsize obj = (case obj of None \<Rightarrow> 0 | Some (t, v) \<Rightarrow> size t)"

text \<open>
  \<open>Sanitize\<close> and \<open>iterable\<close> call each other; \<open>iterSlice\<close> and \<open>iterMap\<close> are the
  two loops of \<open>iterable\<close>, carrying its variable \<open>err\<close>. An element is handed on by
  \<open>Interface()\<close>, a copy: what the nested call writes is written behind a pointer, a slice
  or a map, and is seen through the element. \<open>errors.Wrap(err, iErr.Error())\<close> panics when
  \<open>iErr\<close> is nil, and \<open>Interface()\<close> panics on the zero \<open>reflect.Value\<close> that
  \<open>MapIndex\<close> yields for a NaN key.
\<close>

function
  Sanitize :: "ctx \<Rightarrow> iface \<Rightarrow> outcome \<times> iface"
  and iterable :: "ctx \<Rightarrow> iface \<Rightarrow> bool \<times> outcome \<times> iface"
  and iterSlice :: "ctx \<Rightarrow> gotype \<Rightarrow> outcome \<Rightarrow> val list \<Rightarrow> outcome \<times> val list"
  and iterMap :: "ctx \<Rightarrow> gotype \<Rightarrow> outcome \<Rightarrow> (val \<times> val) list \<Rightarrow> outcome \<times> (val \<times> val) list"
where
  "Sanitize c obj =
    (case iterable c obj of
       (it, err, obj1) \<Rightarrow>
         if err \<noteq> Ok then (err, obj1)
         else if isValid obj1 \<and> \<not> it then
           (case obj1 of
              Some (t, VPtr (Some p)) \<Rightarrow>
                (case sanitizeRec c True False (elemOf t) p of
                   (r, p') \<Rightarrow> (r, Some (t, VPtr (Some p'))))
            | _ \<Rightarrow> (Panic, obj1))
         else (Ok, obj1))"
| "iterable c st =
    (case getValue st of
       None \<Rightarrow> (False, Ok, st)
     | Some (vt, vv) \<Rightarrow>
         if kindOf vt = KSlice then
           (case vv of
              VSlice xs \<Rightarrow>
                (case iterSlice c (elemOf vt) Ok xs of
                   (err, xs') \<Rightarrow> (True, err, putValue st (VSlice xs')))
            | _ \<Rightarrow> (True, Panic, st))
         else if kindOf vt = KMap then
           (case vv of
              VMap kvs \<Rightarrow>
                (case iterMap c (elemOf vt) Ok kvs of
                   (err, kvs') \<Rightarrow> (True, err, putValue st (VMap kvs')))
            | _ \<Rightarrow> (True, Panic, st))
         else (False, Ok, st))"
| "iterSlice c et err [] = (err, [])"
| "iterSlice c et err (x # xs) =
    (case Sanitize c (Some (et, x)) of
       (iErr, obj') \<Rightarrow>
         let x' = (case obj' of Some (t', y) \<Rightarrow> y | None \<Rightarrow> x) in
         if iErr = Panic then (Panic, x' # xs)
         else if err = Ok then
           (case iterSlice c et iErr xs of (r, xs') \<Rightarrow> (r, x' # xs'))
         else
           (case (err, iErr) of
              (Err e0, Err e) \<Rightarrow>
                (case iterSlice c et (Err (Wrap e0 e)) xs of (r, xs') \<Rightarrow> (r, x' # xs'))
            | _ \<Rightarrow> (Panic, x' # xs)))"
| "iterMap c et err [] = (err, [])"
| "iterMap c et err ((k, x) # kvs) =
    (case MapIndex k x of
       None \<Rightarrow> (Panic, (k, x) # kvs)
     | Some y \<Rightarrow>
    (case Sanitize c (Some (et, y)) of
       (iErr, obj') \<Rightarrow>
         let x' = (case obj' of Some (t', z) \<Rightarrow> z | None \<Rightarrow> y) in
         if iErr = Panic then (Panic, (k, x') # kvs)
         else if err = Ok then
           (case iterMap c et iErr kvs of (r, kvs') \<Rightarrow> (r, (k, x') # kvs'))
         else
           (case (err, iErr) of
              (Err e0, Err e) \<Rightarrow>
                (case iterMap c et (Err (Wrap e0 e)) kvs of (r, kvs') \<Rightarrow> (r, (k, x') # kvs'))
            | _ \<Rightarrow> (Panic, (k, x') # kvs))))"
  by pat_completeness auto
termination
  apply (relation "inv_image (less_than <*lex*> less_than)
     (\<lambda>x. case x of
        Inl (Inl (c, obj)) \<Rightarrow> (tsize obj, 2)
      | Inl (Inr (c, st)) \<Rightarrow> (tsize st, 1)
      | Inr (Inl (c, et, err, xs)) \<Rightarrow> (size et, 3 + length xs)
      | Inr (Inr (c, et, err, kvs)) \<Rightarrow> (size et, 3 + length kvs))")
  apply (auto simp: tsize_def getValue_def size_elemOf size_elemOf_elemOf split: if_splits option.splits val.splits)
  done

declare Sanitize.simps [simp del] iterable.simps [simp del]

section \<open>A concrete environment\<close>

text \<open>
  An instance of the parameters, for evaluating the functions on concrete records: a tag
  parser and a number parser that know the few tags used below, and field sanitizers that
  do nothing for the families whose sources are absent.
\<close>

definition exampleTags :: "string \<Rightarrow> (string \<Rightarrow> string option)" where
  "exampleTags tag =
     (if tag = ''min=1,max=10'' then Map.empty(''min'' \<mapsto> ''1'', ''max'' \<mapsto> ''10'')
      else if tag = ''min=5,max=2'' then Map.empty(''min'' \<mapsto> ''5'', ''max'' \<mapsto> ''2'')
      else if tag = ''max=2,def=5'' then Map.empty(''max'' \<mapsto> ''2'', ''def'' \<mapsto> ''5'')
      else if tag = ''min=1,max=10,def=5''
        then Map.empty(''min'' \<mapsto> ''1'', ''max'' \<mapsto> ''10'', ''def'' \<mapsto> ''5'')
      else if tag = ''max=10'' then Map.empty(''max'' \<mapsto> ''10'')
      else if tag = ''def=5'' then Map.empty(''def'' \<mapsto> ''5'')
      else Map.empty)"

definition exampleParse :: "string \<Rightarrow> error + 32 word" where
  "exampleParse s =
     (if s = ''1'' then Inr 1
      else if s = ''2'' then Inr 2
      else if s = ''5'' then Inr 5
      else if s = ''10'' then Inr 10
      else Inl (ParseError s))"

definition exampleEnv :: env where
  "exampleEnv = \<lparr>fieldTags = (\<lambda>s. exampleTags), parseInt32 = exampleParse,
                  external = (\<lambda>f s structValue st idx. (Ok, st))\<rparr>"

definition exampleSanitizer :: Sanitizer where
  "exampleSanitizer = \<lparr>tagName = ''san'', dateInput = [], dateKeepFormat = False, dateOutput = []\<rparr>"

definition exampleCtx :: "accessor \<Rightarrow> ctx" where
  "exampleCtx acc = \<lparr>c_acc = acc, c_env = exampleEnv, c_funcMap = fieldSanFns,
                      c_san = exampleSanitizer\<rparr>"

text \<open>The handle of a struct of type \<open>t\<close> that is the whole storage.\<close>

definition structHandle :: "gotype \<Rightarrow> bool \<Rightarrow> rvalue" where
  "structHandle t addr = \<lparr>rv_type = t, rv_loc = [], rv_addr = addr, rv_ro = False\<rparr>"

definition clamp32 :: "32 word \<Rightarrow> 32 word \<Rightarrow> 32 word \<Rightarrow> 32 word" where
  "clamp32 v a b = (if sint v < sint a then a else if sint b < sint v then b else v)"

definition int32Struct :: gotype where
  "int32Struct = TStruct ''main.T'' [SFieldDecl ''X'' True ''min=1,max=10'' (TPrim PInt32)]"


definition badStruct :: gotype where
  "badStruct = TStruct ''main.B'' [SFieldDecl ''X'' True ''min=5,max=2'' (TPrim PInt32)]"


definition defSliceStruct :: gotype where
  "defSliceStruct = TStruct ''main.U'' [SFieldDecl ''P'' True ''def=5'' (TSlice (TPtr (TPrim PInt32)))]"

definition maxSliceStruct :: gotype where
  "maxSliceStruct = TStruct ''main.V'' [SFieldDecl ''P'' True ''max=10'' (TSlice (TPtr (TPrim PInt32)))]"


definition mapStruct :: gotype where
  "mapStruct = TStruct ''main.W'' [SFieldDecl ''M'' True [] (TMap (TPrim PString) int32Struct)]"

definition sliceStruct :: gotype where
  "sliceStruct = TStruct ''main.S'' [SFieldDecl ''L'' True [] (TSlice int32Struct)]"

definition ptrMapStruct :: gotype where
  "ptrMapStruct = TStruct ''main.R'' [SFieldDecl ''M'' True [] (TMap (TPrim PString) (TPtr int32Struct))]"


definition badMapStruct :: gotype where
  "badMapStruct = TStruct ''main.M'' [SFieldDecl ''M'' True [] (TMap (TPrim PString) badStruct)]"



section \<open>The error of the dispatch lookup\<close>





section \<open>Basic facts\<close>

lemma load_store_same: "load st p = Some v \<Longrightarrow> load (store st p x) p = Some x"
  by (induction st p x arbitrary: v rule: store.induct) (auto split: if_splits)

lemma store_load_id: "load st p = Some v \<Longrightarrow> store st p v = st"
  by (induction st p arbitrary: v rule: load.induct) (auto split: if_splits)

lemma exampleEnv_fieldTags: "fieldTags exampleEnv s tag = exampleTags tag"
  by (simp add: exampleEnv_def)

lemma exampleEnv_parseInt32: "parseInt32 exampleEnv = exampleParse"
  by (simp add: exampleEnv_def)

lemma exampleEnv_external: "external exampleEnv f s structValue st idx = (Ok, st)"
  by (simp add: exampleEnv_def)

lemmas example_simps = exampleEnv_fieldTags exampleEnv_parseInt32 exampleEnv_external
  exampleTags_def exampleParse_def

lemmas handle_simps = Field_def FieldTag_def structHandle_def GetUnexportedField_000_def
  GetUnexportedField_001_def CanAddr_def CanSet_def Kind_def NewAtElem_def IsNil_def Elem_def
  Index_def Len_def

lemmas int32_simps = sanitizeInt32Field_def parseDirectives_def parseTag_def targetFields_def
  applyMin_def applyMax_def ValueInt_def SetInt_def SetPtrDef_def

lemma accessor_plain:
  assumes "Kind f \<noteq> KPtr" "GetUnexportedField acc st f = Some h"
  shows "rv_type h = rv_type f \<and> rv_loc h = rv_loc f"
  using assms
  by (cases acc)
     (auto simp: GetUnexportedField_000_def GetUnexportedField_001_def NewAtElem_def
        split: if_splits)

lemma targetFields_int32: "Kind h = KPrim PInt32 \<Longrightarrow> targetFields st h = [h]"
  by (simp add: targetFields_def)

lemma parseDirectives_min_max:
  assumes "tags ''min'' = Some smin" "parseInt32 E smin = Inr a"
    and "tags ''max'' = Some smax" "parseInt32 E smax = Inr b"
    and "parseDirectives E tags = Inr r"
  shows "fst r = (True, a) \<and> fst (snd r) = (True, b)"
  using assms
  by (auto simp: parseDirectives_def parseTag_def split: sum.splits if_splits option.splits)

lemma int32Loop_single:
  assumes "Kind h = KPrim PInt32" "load st (rv_loc h) = Some (VInt32 v)"
    and "int32Loop True a True b hasDef df [h] st = (Ok, st')" "sint a \<le> sint b"
  shows "load st' (rv_loc h) = Some (VInt32 (clamp32 v a b))"
  using assms
  by (auto simp: applyMin_def applyMax_def ValueInt_def SetInt_def clamp32_def load_store_same
        split: option.splits if_splits)

lemma accessor_nil:
  assumes "IsNil st f" "GetUnexportedField acc st f = Some h"
  shows "rv_type h = rv_type f \<and> rv_loc h = rv_loc f"
  using assms
  by (cases acc)
     (auto simp: GetUnexportedField_000_def GetUnexportedField_001_def NewAtElem_def
        split: if_splits)


lemma int32Loop_nil_first:
  assumes "Kind h = KPtr" "IsNil st h"
  shows "int32Loop hasMin mn hasMax mx hasDef df (h # rest) st =
           (if hasDef then (case SetPtrDef st h df of None \<Rightarrow> (Panic, st) | Some st' \<Rightarrow> (Ok, st'))
            else (Ok, st))"
  using assms by simp


lemma parseDirectives_bad:
  assumes "(\<exists>smin a smax b. tags ''min'' = Some smin \<and> parseInt32 E smin = Inr a
              \<and> tags ''max'' = Some smax \<and> parseInt32 E smax = Inr b \<and> sint b < sint a)
         \<or> (\<exists>smin a. tags ''min'' = Some smin \<and> parseInt32 E smin = Inr a \<and> sint a < 0)
         \<or> (\<exists>smax b. tags ''max'' = Some smax \<and> parseInt32 E smax = Inr b \<and> sint b < 0)
         \<or> (\<exists>sd d smax b. tags ''def'' = Some sd \<and> parseInt32 E sd = Inr d
              \<and> tags ''max'' = Some smax \<and> parseInt32 E smax = Inr b \<and> sint b < sint d)
         \<or> (\<exists>sd d smin a. tags ''def'' = Some sd \<and> parseInt32 E sd = Inr d
              \<and> tags ''min'' = Some smin \<and> parseInt32 E smin = Inr a \<and> sint d < sint a)"
  shows "\<exists>e. parseDirectives E tags = Inl e"
  using assms
  by (auto simp: parseDirectives_def parseTag_def split: sum.splits option.splits)

lemma accessor_addressable:
  assumes "rv_addr f \<or> acc = Part001"
  shows "\<exists>h. GetUnexportedField acc st f = Some h"
  using assms
  by (cases acc)
     (auto simp: GetUnexportedField_000_def GetUnexportedField_001_def NewAtElem_def CanAddr_def
        Elem_def Let_def)


text \<open>
  In the traversal a field of type \<open>int32\<close> or \<open>*int32\<close> goes to
  \<open>sanitizeInt32Field\<close> under the initial dispatch table, and the loop continues with
  the next field.
\<close>

lemma fieldSanFns_int32:
  "fieldSanFns ''int32'' = Some SanitizeInt32Field"
  "fieldSanFns ''*int32'' = Some SanitizeInt32Field"
  by code_simp+

lemma recFields_int32_field:
  assumes fs: "structFields t = Some fs" "i < length fs"
    and ty: "f_type (fs ! i) = TPrim PInt32 \<or> f_type (fs ! i) = TPtr (TPrim PInt32)"
    and fm: "c_funcMap c = fieldSanFns"
  shows "recFields c addr ro t i v =
           andThen (sanitizeInt32Field (c_acc c) (c_env c) (c_san c)
                      \<lparr>rv_type = t, rv_loc = [], rv_addr = addr, rv_ro = ro\<rparr> v i)
                   (recFields c addr ro t (Suc i))"
  using ty
proof
  assume "f_type (fs ! i) = TPrim PInt32"
  with fs fm show ?thesis
    by (subst recFields.simps)
       (simp add: Let_def Kind_def andThen_def getFieldFunc_def fieldSanFns_int32 callSan_def
          split: prod.splits outcome.splits)
next
  assume "f_type (fs ! i) = TPtr (TPrim PInt32)"
  with fs fm show ?thesis
    by (subst recFields.simps)
       (simp add: Let_def Kind_def ElemKind_def Elem_def elemOf_def andThen_def getFieldFunc_def
          fieldSanFns_int32 callSan_def split: prod.splits outcome.splits)
qed

section \<open>The numeric policy of sanitizeInt32Field\<close>

text \<open>
  Claim C1. An int32 field with directives \<open>min=a\<close> and \<open>max=b\<close>, where
  \<open>0 \<le> a \<le> b\<close>, holding \<open>v\<close>: whenever the field sanitizer returns without an error,
  the field holds \<open>v\<close> clamped to \<open>[a, b]\<close> (raised to \<open>a\<close> below it, lowered to \<open>b\<close>
  above it, unchanged otherwise). This holds for both versions of the accessor and for
  any \<open>def\<close> directive.
\<close>

theorem C1_int32_clamp:
  assumes fs: "structFields (rv_type sv) = Some fs" and idx: "idx < length fs"
    and ty: "f_type (fs ! idx) = TPrim PInt32"
    and v: "load st (rv_loc sv @ [SField idx]) = Some (VInt32 v)"
    and tmin: "fieldTags E s (f_tag (fs ! idx)) ''min'' = Some smin" "parseInt32 E smin = Inr a"
    and tmax: "fieldTags E s (f_tag (fs ! idx)) ''max'' = Some smax" "parseInt32 E smax = Inr b"
    and ab: "sint a \<le> sint b" "0 \<le> sint a"
    and ok: "sanitizeInt32Field acc E s sv st idx = (Ok, st')"
  shows "load st' (rv_loc sv @ [SField idx]) = Some (VInt32 (clamp32 v a b))"
proof -
  define f where "f = \<lparr>rv_type = f_type (fs ! idx), rv_loc = rv_loc sv @ [SField idx],
                         rv_addr = rv_addr sv, rv_ro = (rv_ro sv \<or> \<not> f_exported (fs ! idx))\<rparr>"
  have F: "Field sv idx = Some f" using fs idx by (simp add: Field_def f_def)
  have T: "FieldTag sv idx = Some (f_tag (fs ! idx))" using fs idx by (simp add: FieldTag_def)
  have kf: "Kind f = KPrim PInt32" using ty by (simp add: Kind_def f_def)
  obtain h where G: "GetUnexportedField acc st f = Some h"
    using ok F by (cases "GetUnexportedField acc st f") (auto simp: sanitizeInt32Field_def)
  have h: "rv_type h = rv_type f" "rv_loc h = rv_loc f"
    using accessor_plain [OF _ G] kf by simp_all
  then have kh: "Kind h = KPrim PInt32" using kf by (simp add: Kind_def)
  obtain r where P: "parseDirectives E (fieldTags E s (f_tag (fs ! idx))) = Inr r"
    using ok F G T
    by (cases "parseDirectives E (fieldTags E s (f_tag (fs ! idx)))")
       (auto simp: sanitizeInt32Field_def)
  obtain hasDef df where r: "r = ((True, a), (True, b), (hasDef, df))"
    using parseDirectives_min_max [OF tmin tmax P] by (cases r) auto
  have "int32Loop True a True b hasDef df [h] st = (Ok, st')"
    using ok F G T P r kh by (simp add: sanitizeInt32Field_def targetFields_int32)
  from int32Loop_single [OF kh _ this ab(1)] v h show ?thesis by (simp add: f_def)
qed

theorem C1_int32_clamp_witness:
  "sanitizeInt32Field Part000 exampleEnv exampleSanitizer (structHandle int32Struct True)
     (VStruct [VInt32 15]) 0 = (Ok, VStruct [VInt32 10])
   \<and> load (VStruct [VInt32 10]) [SField 0] = Some (VInt32 (clamp32 15 1 10))
   \<and> Sanitize (exampleCtx Part000) (Some (TPtr int32Struct, VPtr (Some (VStruct [VInt32 0]))))
     = (Ok, Some (TPtr int32Struct, VPtr (Some (VStruct [VInt32 1]))))
   \<and> Sanitize (exampleCtx Part001) (Some (TPtr int32Struct, VPtr (Some (VStruct [VInt32 15]))))
     = (Ok, Some (TPtr int32Struct, VPtr (Some (VStruct [VInt32 10]))))
   \<and> Sanitize (exampleCtx Part001) (Some (TPtr int32Struct, VPtr (Some (VStruct [VInt32 5]))))
     = (Ok, Some (TPtr int32Struct, VPtr (Some (VStruct [VInt32 5]))))"
proof -
  have ok: "sanitizeInt32Field Part000 exampleEnv exampleSanitizer (structHandle int32Struct True)
     (VStruct [VInt32 15]) 0 = (Ok, VStruct [VInt32 10])"
    by (simp add: int32_simps handle_simps example_simps int32Struct_def)
  have "load (VStruct [VInt32 10]) (rv_loc (structHandle int32Struct True) @ [SField 0])
          = Some (VInt32 (clamp32 15 1 10))"
    by (rule C1_int32_clamp [where fs = "[SFieldDecl ''X'' True ''min=1,max=10'' (TPrim PInt32)]"
          and smin = "''1''" and smax = "''10''", OF _ _ _ _ _ _ _ _ _ _ ok])
       (simp_all add: structHandle_def int32Struct_def example_simps)
  then have field: "load (VStruct [VInt32 10]) [SField 0] = Some (VInt32 (clamp32 15 1 10))"
    by (simp add: structHandle_def)
  have whole: "Sanitize (exampleCtx Part000) (Some (TPtr int32Struct, VPtr (Some (VStruct [VInt32 0]))))
     = (Ok, Some (TPtr int32Struct, VPtr (Some (VStruct [VInt32 1]))))
   \<and> Sanitize (exampleCtx Part001) (Some (TPtr int32Struct, VPtr (Some (VStruct [VInt32 15]))))
     = (Ok, Some (TPtr int32Struct, VPtr (Some (VStruct [VInt32 10]))))
   \<and> Sanitize (exampleCtx Part001) (Some (TPtr int32Struct, VPtr (Some (VStruct [VInt32 5]))))
     = (Ok, Some (TPtr int32Struct, VPtr (Some (VStruct [VInt32 5]))))"
    by code_simp
  show ?thesis using ok field whole by blast
qed




text \<open>
  Directives with \<open>max < min\<close>, a negative \<open>min\<close> or \<open>max\<close>, or a \<open>def\<close> above
  \<open>max\<close> or below \<open>min\<close>: the field sanitizer returns an error and the storage is
  exactly as it was before the call, when the struct is addressable or the accessor is the
  version that does not need that.
\<close>

lemma bad_directives_rejected:
  assumes fs: "structFields (rv_type sv) = Some fs" and idx: "idx < length fs"
    and addr: "rv_addr sv \<or> acc = Part001"
    and bad:
      "(\<exists>smin a smax b. fieldTags E s (f_tag (fs ! idx)) ''min'' = Some smin
            \<and> parseInt32 E smin = Inr a
            \<and> fieldTags E s (f_tag (fs ! idx)) ''max'' = Some smax
            \<and> parseInt32 E smax = Inr b \<and> sint b < sint a)
       \<or> (\<exists>smin a. fieldTags E s (f_tag (fs ! idx)) ''min'' = Some smin
            \<and> parseInt32 E smin = Inr a \<and> sint a < 0)
       \<or> (\<exists>smax b. fieldTags E s (f_tag (fs ! idx)) ''max'' = Some smax
            \<and> parseInt32 E smax = Inr b \<and> sint b < 0)
       \<or> (\<exists>sd d smax b. fieldTags E s (f_tag (fs ! idx)) ''def'' = Some sd
            \<and> parseInt32 E sd = Inr d
            \<and> fieldTags E s (f_tag (fs ! idx)) ''max'' = Some smax
            \<and> parseInt32 E smax = Inr b \<and> sint b < sint d)
       \<or> (\<exists>sd d smin a. fieldTags E s (f_tag (fs ! idx)) ''def'' = Some sd
            \<and> parseInt32 E sd = Inr d
            \<and> fieldTags E s (f_tag (fs ! idx)) ''min'' = Some smin
            \<and> parseInt32 E smin = Inr a \<and> sint d < sint a)"
  shows "\<exists>e. sanitizeInt32Field acc E s sv st idx = (Err e, st)"
proof -
  define f where "f = \<lparr>rv_type = f_type (fs ! idx), rv_loc = rv_loc sv @ [SField idx],
                         rv_addr = rv_addr sv, rv_ro = (rv_ro sv \<or> \<not> f_exported (fs ! idx))\<rparr>"
  have F: "Field sv idx = Some f" using fs idx by (simp add: Field_def f_def)
  have T: "FieldTag sv idx = Some (f_tag (fs ! idx))" using fs idx by (simp add: FieldTag_def)
  obtain h where G: "GetUnexportedField acc st f = Some h"
    using accessor_addressable [of f acc st] addr by (auto simp: f_def)
  obtain e where P: "parseDirectives E (fieldTags E s (f_tag (fs ! idx))) = Inl e"
    using parseDirectives_bad [OF bad] by blast
  show ?thesis using F T G P by (simp add: sanitizeInt32Field_def)
qed

text \<open>
  On a plain int32 field a second call of the field sanitizer with the same directives
  returns what the first returned and changes nothing.
\<close>

lemma accessor_plain_state:
  assumes "Kind f \<noteq> KPtr"
  shows "GetUnexportedField acc st f = GetUnexportedField acc st' f"
  using assms
  by (cases acc) (simp_all add: GetUnexportedField_000_def GetUnexportedField_001_def)

lemma parseDirectives_ordered:
  assumes "parseDirectives E tags = Inr ((hasMin, mn), (hasMax, mx), d)"
  shows "hasMin \<and> hasMax \<longrightarrow> sint mn \<le> sint mx"
  using assms
  by (auto simp: parseDirectives_def parseTag_def split: sum.splits if_splits option.splits)

lemma int32Loop_single_again:
  assumes k: "Kind h = KPrim PInt32"
    and ord: "hasMin \<and> hasMax \<longrightarrow> sint mn \<le> sint mx"
    and run: "int32Loop hasMin mn hasMax mx hasDef df [h] st = (r, st1)"
  shows "int32Loop hasMin mn hasMax mx hasDef df [h] st1 = (r, st1)"
proof (cases "load st (rv_loc h)")
  case None
  then show ?thesis using k run
    by (cases hasMin; cases hasMax)
       (auto simp: applyMin_def applyMax_def ValueInt_def split: if_splits)
next
  case (Some x)
  show ?thesis
  proof (cases x)
    case (VInt32 w)
    with Some k ord run show ?thesis
      by (cases hasMin; cases hasMax)
         (auto simp: applyMin_def applyMax_def ValueInt_def SetInt_def load_store_same
            split: if_splits)
  qed (use Some k run in \<open>cases hasMin; cases hasMax;
        auto simp: applyMin_def applyMax_def ValueInt_def split: if_splits\<close>)+
qed

lemma sanitizeInt32Field_scalar_again:
  assumes fs: "structFields (rv_type sv) = Some fs" and idx: "idx < length fs"
    and ty: "f_type (fs ! idx) = TPrim PInt32"
    and run: "sanitizeInt32Field acc E s sv st idx = (r, st1)"
  shows "sanitizeInt32Field acc E s sv st1 idx = (r, st1)"
proof -
  define f where "f = \<lparr>rv_type = f_type (fs ! idx), rv_loc = rv_loc sv @ [SField idx],
                         rv_addr = rv_addr sv, rv_ro = (rv_ro sv \<or> \<not> f_exported (fs ! idx))\<rparr>"
  define tags where "tags = fieldTags E s (f_tag (fs ! idx))"
  have F: "Field sv idx = Some f" using fs idx by (simp add: Field_def f_def)
  have T: "FieldTag sv idx = Some (f_tag (fs ! idx))" using fs idx by (simp add: FieldTag_def)
  have kf: "Kind f \<noteq> KPtr" "Kind f = KPrim PInt32" using ty by (simp_all add: Kind_def f_def)
  have unfold: "sanitizeInt32Field acc E s sv x idx =
     (case GetUnexportedField acc st f of
        None \<Rightarrow> (Panic, x)
      | Some h \<Rightarrow>
         (case parseDirectives E tags of
            Inl e \<Rightarrow> (Err e, x)
          | Inr ((hasMin, mn), (hasMax, mx), (hasDef, df)) \<Rightarrow>
              int32Loop hasMin mn hasMax mx hasDef df (targetFields x h) x))" for x
    using F T accessor_plain_state [OF kf(1), of acc x st]
    by (simp add: sanitizeInt32Field_def tags_def split: option.splits)
  show ?thesis
  proof (cases "GetUnexportedField acc st f")
    case None
    then show ?thesis using run unfold by simp
  next
    case (Some h)
    from accessor_plain [OF kf(1) Some] kf have kh: "Kind h = KPrim PInt32"
      by (simp add: Kind_def)
    show ?thesis
    proof (cases "parseDirectives E tags")
      case (Inl e)
      then show ?thesis using run unfold Some by simp
    next
      case (Inr d)
      obtain hasMin mn hasMax mx hasDef df where
        d: "d = ((hasMin, mn), (hasMax, mx), (hasDef, df))"
        by (metis prod.exhaust)
      from parseDirectives_ordered Inr d have ord: "hasMin \<and> hasMax \<longrightarrow> sint mn \<le> sint mx"
        by blast
      have "int32Loop hasMin mn hasMax mx hasDef df [h] st = (r, st1)"
        using run unfold [of st] Some Inr d kh by (simp add: targetFields_int32)
      from int32Loop_single_again [OF kh ord this]
      show ?thesis using unfold [of st1] Some Inr d kh by (simp add: targetFields_int32)
    qed
  qed
qed

text \<open>
  Claim C7 says that every element of a sequence-typed field gets the policy, also after a
  nil pointer. The loop returns at the first nil pointer instead of going on: with
  \<open>max=10\<close> on a \<open>[]*int32\<close> holding nil and a pointer to 100, the call returns
  without an error and the 100 stays, in both accessor versions; with a pointer to 3 in
  front, the 100 is lowered to 10.
\<close>

theorem C7_elements_after_nil_skipped:
  "sanitizeInt32Field Part000 exampleEnv exampleSanitizer (structHandle maxSliceStruct True)
     (VStruct [VSlice [VPtr None, VPtr (Some (VInt32 100))]]) 0
     = (Ok, VStruct [VSlice [VPtr None, VPtr (Some (VInt32 100))]])
   \<and> sanitizeInt32Field Part001 exampleEnv exampleSanitizer (structHandle maxSliceStruct True)
     (VStruct [VSlice [VPtr None, VPtr (Some (VInt32 100))]]) 0
     = (Ok, VStruct [VSlice [VPtr None, VPtr (Some (VInt32 100))]])
   \<and> sanitizeInt32Field Part000 exampleEnv exampleSanitizer (structHandle maxSliceStruct True)
     (VStruct [VSlice [VPtr (Some (VInt32 3)), VPtr (Some (VInt32 100))]]) 0
     = (Ok, VStruct [VSlice [VPtr (Some (VInt32 3)), VPtr (Some (VInt32 10))]])"
  by code_simp

section \<open>The accessor\<close>

text \<open>
  Claim C10. On a field handle that is addressable and not of pointer kind, the two
  versions of \<open>GetUnexportedField\<close> return the same handle, and that handle is settable,
  of the same type, and designates the storage the field handle designates.
\<close>

theorem C10_accessors_agree:
  assumes "CanAddr field" and "Kind field \<noteq> KPtr"
  shows "GetUnexportedField_000 st field = GetUnexportedField_001 st field
         \<and> (\<exists>h. GetUnexportedField_001 st field = Some h \<and> CanSet h
                  \<and> rv_loc h = rv_loc field \<and> rv_type h = rv_type field)"
  using assms
  by (simp add: GetUnexportedField_000_def GetUnexportedField_001_def NewAtElem_def
        CanAddr_def CanSet_def)

theorem C10_accessors_agree_witness:
  "CanAddr \<lparr>rv_type = TPrim PInt32, rv_loc = [SField 0], rv_addr = True, rv_ro = True\<rparr>
   \<and> Kind \<lparr>rv_type = TPrim PInt32, rv_loc = [SField 0], rv_addr = True, rv_ro = True\<rparr> \<noteq> KPtr
   \<and> GetUnexportedField_000 (VStruct [VInt32 0])
        \<lparr>rv_type = TPrim PInt32, rv_loc = [SField 0], rv_addr = True, rv_ro = True\<rparr>
     = GetUnexportedField_001 (VStruct [VInt32 0])
        \<lparr>rv_type = TPrim PInt32, rv_loc = [SField 0], rv_addr = True, rv_ro = True\<rparr>"
proof -
  have a: "CanAddr \<lparr>rv_type = TPrim PInt32, rv_loc = [SField 0], rv_addr = True, rv_ro = True\<rparr>"
    by (simp add: CanAddr_def)
  have k: "Kind \<lparr>rv_type = TPrim PInt32, rv_loc = [SField 0], rv_addr = True, rv_ro = True\<rparr> \<noteq> KPtr"
    by (simp add: Kind_def)
  from C10_accessors_agree [OF a k, of "VStruct [VInt32 0]"] a k show ?thesis by blast
qed

section \<open>The entry point and the traversal\<close>

lemma getValue_putValue: "getValue obj = Some (vt, vv) \<Longrightarrow> putValue obj vv = obj"
  by (auto simp: getValue_def putValue_def split: option.splits if_splits val.splits)

lemma Sanitize_struct_value:
  assumes "kindOf et = KStruct"
  shows "Sanitize c (Some (et, x)) = (Ok, Some (et, x))"
proof -
  have g: "getValue (Some (et, x)) = Some (et, x)" using assms by (simp add: getValue_def)
  have i: "iterable c (Some (et, x)) = (False, Ok, Some (et, x))"
    by (subst iterable.simps) (simp add: g assms)
  have v: "\<not> isValid (Some (et, x))" using assms by (simp add: isValid_def g)
  show ?thesis by (subst Sanitize.simps) (simp add: i v)
qed

lemma iterSlice_struct_values:
  "kindOf et = KStruct \<Longrightarrow> iterSlice c et Ok xs = (Ok, xs)"
  by (induction xs) (simp_all add: Sanitize_struct_value)

lemma iterMap_struct_values:
  "kindOf et = KStruct \<Longrightarrow> list_all (\<lambda>kv. \<not> holdsNaN (fst kv)) kvs
     \<Longrightarrow> iterMap c et Ok kvs = (Ok, kvs)"
  by (induction kvs) (auto simp: Sanitize_struct_value MapIndex_def)

text \<open>
  Claim C4 says that a second call of \<open>Sanitize\<close> changes nothing. With \<open>def=5\<close> on a
  \<open>[]*int32\<close> holding two nil pointers, the first call sets the first element and
  returns at it, and the second call sets the second element: the record after two calls
  is not the record after one. This is the early return of claim C7.
\<close>

theorem C4_second_call_differs:
  "Sanitize (exampleCtx Part000)
     (Some (TPtr defSliceStruct, VPtr (Some (VStruct [VSlice [VPtr None, VPtr None]]))))
     = (Ok, Some (TPtr defSliceStruct,
                  VPtr (Some (VStruct [VSlice [VPtr (Some (VInt32 5)), VPtr None]]))))
   \<and> Sanitize (exampleCtx Part000)
     (Some (TPtr defSliceStruct,
            VPtr (Some (VStruct [VSlice [VPtr (Some (VInt32 5)), VPtr None]]))))
     = (Ok, Some (TPtr defSliceStruct,
                  VPtr (Some (VStruct [VSlice [VPtr (Some (VInt32 5)), VPtr (Some (VInt32 5))]]))))"
  by code_simp

text \<open>
  Claim C3 says that \<open>Sanitize\<close> returns the directive error and leaves the field as
  it was. Through a pointer to the struct it does. In a root slice \<open>[]*B\<close>, with the
  field of \<open>B\<close> tagged \<open>min=5,max=2\<close>, the first element gives the directive error,
  and at the second element, a nil pointer for which \<open>Sanitize\<close> returns nil,
  \<open>iterable\<close> calls \<open>Error\<close> on that nil error to wrap it: \<open>Sanitize\<close> panics and the
  directive error is lost, with either accessor version. With the first accessor version
  the same field in a struct that is a value of a map field panics in \<open>UnsafeAddr\<close>
  before a directive is read. The field keeps its value in every case.
\<close>

theorem C3_error_lost_in_panic:
  "Sanitize (exampleCtx Part000)
     (Some (TSlice (TPtr badStruct), VSlice [VPtr (Some (VStruct [VInt32 7])), VPtr None]))
     = (Panic, Some (TSlice (TPtr badStruct), VSlice [VPtr (Some (VStruct [VInt32 7])), VPtr None]))
   \<and> Sanitize (exampleCtx Part001)
     (Some (TSlice (TPtr badStruct), VSlice [VPtr (Some (VStruct [VInt32 7])), VPtr None]))
     = (Panic, Some (TSlice (TPtr badStruct), VSlice [VPtr (Some (VStruct [VInt32 7])), VPtr None]))
   \<and> Sanitize (exampleCtx Part000)
     (Some (TPtr badMapStruct, VPtr (Some (VStruct [VMap [(VOther ''k'', VStruct [VInt32 7])]]))))
     = (Panic, Some (TPtr badMapStruct, VPtr (Some (VStruct [VMap [(VOther ''k'', VStruct [VInt32 7])]]))))
   \<and> Sanitize (exampleCtx Part000) (Some (TPtr badStruct, VPtr (Some (VStruct [VInt32 7]))))
     = (Err MaxLessThanMin, Some (TPtr badStruct, VPtr (Some (VStruct [VInt32 7]))))
   \<and> Sanitize (exampleCtx Part000)
     (Some (TSlice (TPtr badStruct), VSlice [VPtr (Some (VStruct [VInt32 7]))]))
     = (Err MaxLessThanMin, Some (TSlice (TPtr badStruct), VSlice [VPtr (Some (VStruct [VInt32 7]))]))"
  by code_simp

text \<open>
  A slice or a map at the root (given directly or behind a pointer) whose elements are
  struct values, not pointers to structs, and, for a map, whose keys hold no NaN:
  \<open>Sanitize\<close> returns no error and the argument is unchanged, whatever the directives of
  the element type are.
\<close>

lemma root_struct_values_untouched:
  assumes g: "getValue obj = Some (vt, vv)"
    and shape: "(kindOf vt = KSlice \<and> (\<exists>xs. vv = VSlice xs))
              \<or> (kindOf vt = KMap
                  \<and> (\<exists>kvs. vv = VMap kvs \<and> list_all (\<lambda>kv. \<not> holdsNaN (fst kv)) kvs))"
    and elems: "kindOf (elemOf vt) = KStruct"
  shows "Sanitize c obj = (Ok, obj)"
proof -
  have "iterable c obj = (True, Ok, obj)"
    using shape
  proof
    assume "kindOf vt = KSlice \<and> (\<exists>xs. vv = VSlice xs)"
    then obtain xs where "kindOf vt = KSlice" "vv = VSlice xs" by blast
    then show ?thesis
      using g elems getValue_putValue [OF g]
      by (subst iterable.simps) (simp add: iterSlice_struct_values)
  next
    assume "kindOf vt = KMap
       \<and> (\<exists>kvs. vv = VMap kvs \<and> list_all (\<lambda>kv. \<not> holdsNaN (fst kv)) kvs)"
    then obtain kvs where "kindOf vt = KMap" "vv = VMap kvs"
      "list_all (\<lambda>kv. \<not> holdsNaN (fst kv)) kvs" by blast
    then show ?thesis
      using g elems getValue_putValue [OF g]
      by (subst iterable.simps) (simp add: iterMap_struct_values)
  qed
  then show ?thesis by (subst Sanitize.simps) simp
qed

text \<open>
  Claim C9 says that for every root map of struct values \<open>Sanitize\<close> returns no error.
  For a \<open>map[float64]T\<close> with the key NaN, \<open>MapKeys\<close> gives the key and \<open>MapIndex\<close>
  finds no entry for it (NaN is not equal to itself): it gives the zero Value, on which
  \<open>Interface\<close> panics, so \<open>Sanitize\<close> panics, with either accessor version. With a key
  that is not NaN, and for a slice, \<open>Sanitize\<close> returns no error and changes nothing.
\<close>

theorem C9_nan_key_panics:
  "Sanitize (exampleCtx Part000)
     (Some (TMap (TPrim PFloat64) int32Struct, VMap [(VNaN, VStruct [VInt32 0])]))
     = (Panic, Some (TMap (TPrim PFloat64) int32Struct, VMap [(VNaN, VStruct [VInt32 0])]))
   \<and> Sanitize (exampleCtx Part001)
     (Some (TMap (TPrim PFloat64) int32Struct, VMap [(VNaN, VStruct [VInt32 0])]))
     = (Panic, Some (TMap (TPrim PFloat64) int32Struct, VMap [(VNaN, VStruct [VInt32 0])]))
   \<and> Sanitize (exampleCtx Part000)
     (Some (TMap (TPrim PFloat64) int32Struct, VMap [(VOther ''1.5'', VStruct [VInt32 0])]))
     = (Ok, Some (TMap (TPrim PFloat64) int32Struct, VMap [(VOther ''1.5'', VStruct [VInt32 0])]))
   \<and> Sanitize (exampleCtx Part000) (Some (TSlice int32Struct, VSlice [VStruct [VInt32 0]]))
     = (Ok, Some (TSlice int32Struct, VSlice [VStruct [VInt32 0]]))"
  by code_simp


text \<open>
  Claim C5 says that \<open>Sanitize\<close> is a no-op on every input that is nil, not settable,
  zero-valued or not a struct. A slice of pointers to structs is not a struct and is
  passed by value, and \<open>Sanitize\<close> sanitizes the structs behind its elements: with
  \<open>min=1,max=10\<close> the 0 behind the first element does not stay.
\<close>

theorem C5_counterexample:
  "kindOf (TSlice (TPtr int32Struct)) \<noteq> KStruct
   \<and> Sanitize (exampleCtx Part000)
        (Some (TSlice (TPtr int32Struct), VSlice [VPtr (Some (VStruct [VInt32 0]))]))
     \<noteq> (Ok, Some (TSlice (TPtr int32Struct), VSlice [VPtr (Some (VStruct [VInt32 0]))]))"
  by code_simp

text \<open>
  Claim C5, amended. \<open>Sanitize\<close> returns no error and leaves its argument as it is for:
  nil; a nil pointer; a value given directly (not behind a pointer) that is neither a slice
  nor a map, a struct given by value included; a pointer to a value that is neither a
  struct, nor a slice, nor a map; and an empty slice or map, given directly or behind a
  pointer. (A slice or map with elements is iterated instead.)
\<close>

theorem C5_noop_inputs:
  assumes "obj = None
         \<or> (\<exists>t. obj = Some (t, VPtr None) \<and> kindOf t = KPtr)
         \<or> (\<exists>t v. obj = Some (t, v) \<and> kindOf t \<noteq> KPtr \<and> kindOf t \<noteq> KSlice \<and> kindOf t \<noteq> KMap)
         \<or> (\<exists>t p. obj = Some (t, VPtr (Some p)) \<and> kindOf t = KPtr \<and> kindOf (elemOf t) \<noteq> KStruct
               \<and> kindOf (elemOf t) \<noteq> KSlice \<and> kindOf (elemOf t) \<noteq> KMap)
         \<or> (\<exists>vt. getValue obj = Some (vt, VSlice []) \<and> kindOf vt = KSlice)
         \<or> (\<exists>vt. getValue obj = Some (vt, VMap []) \<and> kindOf vt = KMap)"
  shows "Sanitize c obj = (Ok, obj)"
proof -
  consider (nil) "getValue obj = None"
    | (plain) vt vv where "getValue obj = Some (vt, vv)" "kindOf vt \<noteq> KSlice" "kindOf vt \<noteq> KMap"
        "\<not> isValid obj"
    | (emptyS) vt where "getValue obj = Some (vt, VSlice [])" "kindOf vt = KSlice"
    | (emptyM) vt where "getValue obj = Some (vt, VMap [])" "kindOf vt = KMap"
    using assms
    by (elim disjE exE conjE) (auto simp: getValue_def isValid_def)
  then show ?thesis
  proof cases
    case nil
    then have "iterable c obj = (False, Ok, obj)" by (subst iterable.simps) simp
    moreover have "\<not> isValid obj" using nil by (auto simp: isValid_def split: option.splits)
    ultimately show ?thesis by (subst Sanitize.simps) simp
  next
    case plain
    then have "iterable c obj = (False, Ok, obj)" by (subst iterable.simps) simp
    then show ?thesis using plain by (subst Sanitize.simps) simp
  next
    case emptyS
    then have "iterable c obj = (True, Ok, obj)"
      using getValue_putValue [OF emptyS(1)] by (subst iterable.simps) simp
    then show ?thesis by (subst Sanitize.simps) simp
  next
    case emptyM
    then have "iterable c obj = (True, Ok, obj)"
      using getValue_putValue [OF emptyM(1)] by (subst iterable.simps) simp
    then show ?thesis by (subst Sanitize.simps) simp
  qed
qed

theorem C5_noop_inputs_witness:
  "Sanitize (exampleCtx Part000) None = (Ok, None)
   \<and> Sanitize (exampleCtx Part000) (Some (TPtr int32Struct, VPtr None))
     = (Ok, Some (TPtr int32Struct, VPtr None))
   \<and> Sanitize (exampleCtx Part000) (Some (int32Struct, VStruct [VInt32 0]))
     = (Ok, Some (int32Struct, VStruct [VInt32 0]))
   \<and> Sanitize (exampleCtx Part000) (Some (TPtr (TPrim PInt32), VPtr (Some (VInt32 0))))
     = (Ok, Some (TPtr (TPrim PInt32), VPtr (Some (VInt32 0))))"
proof -
  have a: "Sanitize (exampleCtx Part000) None = (Ok, None)"
    by (rule C5_noop_inputs) simp
  have b: "Sanitize (exampleCtx Part000) (Some (TPtr int32Struct, VPtr None))
     = (Ok, Some (TPtr int32Struct, VPtr None))"
    by (rule C5_noop_inputs) simp
  have c: "Sanitize (exampleCtx Part000) (Some (int32Struct, VStruct [VInt32 0]))
     = (Ok, Some (int32Struct, VStruct [VInt32 0]))"
    by (rule C5_noop_inputs) (simp add: int32Struct_def)
  have d: "Sanitize (exampleCtx Part000) (Some (TPtr (TPrim PInt32), VPtr (Some (VInt32 0))))
     = (Ok, Some (TPtr (TPrim PInt32), VPtr (Some (VInt32 0))))"
    by (rule C5_noop_inputs) (simp add: elemOf_def)
  show ?thesis using a b c d by blast
qed

text \<open>
  The loops over the elements of a slice field and the values of a map field: when they
  end without an error, the loop body has run on every element, in order (on every value
  that \<open>MapIndex\<close> finds, for a map).
\<close>

lemma recElems_every_element:
  "recElems c ro et xs = (Ok, xs') \<Longrightarrow>
     length xs' = length xs \<and> (\<forall>j < length xs. recElem c True ro et (xs ! j) = (Ok, xs' ! j))"
proof (induction xs arbitrary: xs')
  case Nil
  then show ?case by simp
next
  case (Cons x xs)
  obtain r y where h: "recElem c True ro et x = (r, y)" by (cases "recElem c True ro et x")
  obtain r' ys where t: "recElems c ro et xs = (r', ys)" by (cases "recElems c ro et xs")
  from Cons.prems h t have r: "r = Ok" "r' = Ok" "xs' = y # ys"
    by (auto split: if_splits)
  from Cons.IH [of ys] t r have
    "length ys = length xs \<and> (\<forall>j < length xs. recElem c True ro et (xs ! j) = (Ok, ys ! j))"
    by simp
  with h r show ?case by (auto simp: nth_Cons split: nat.splits)
qed

lemma recValues_every_value:
  "recValues c ro et kvs = (Ok, kvs') \<Longrightarrow>
     map fst kvs' = map fst kvs
     \<and> (\<forall>j < length kvs.
           case MapIndex (fst (kvs ! j)) (snd (kvs ! j)) of
             None \<Rightarrow> snd (kvs' ! j) = snd (kvs ! j)
           | Some f \<Rightarrow> recElem c False ro et f = (Ok, snd (kvs' ! j)))"
proof (induction kvs arbitrary: kvs')
  case Nil
  then show ?case by simp
next
  case (Cons kv kvs)
  obtain k x where kv: "kv = (k, x)" by (cases kv)
  obtain r' ys where t: "recValues c ro et kvs = (r', ys)" by (cases "recValues c ro et kvs")
  show ?case
  proof (cases "MapIndex k x")
    case None
    from Cons.prems kv t None have r: "r' = Ok" "kvs' = (k, x) # ys" by auto
    from Cons.IH [of ys] t r have
      "map fst ys = map fst kvs
       \<and> (\<forall>j < length kvs.
           case MapIndex (fst (kvs ! j)) (snd (kvs ! j)) of
             None \<Rightarrow> snd (ys ! j) = snd (kvs ! j)
           | Some f \<Rightarrow> recElem c False ro et f = (Ok, snd (ys ! j)))"
      by simp
    with None r kv show ?thesis by (auto simp: nth_Cons split: nat.splits option.splits)
  next
    case (Some f)
    obtain r y where h: "recElem c False ro et f = (r, y)" by (cases "recElem c False ro et f")
    from Cons.prems kv h t Some have r: "r = Ok" "r' = Ok" "kvs' = (k, y) # ys"
      by (auto split: if_splits)
    from Cons.IH [of ys] t r have
      "map fst ys = map fst kvs
       \<and> (\<forall>j < length kvs.
           case MapIndex (fst (kvs ! j)) (snd (kvs ! j)) of
             None \<Rightarrow> snd (ys ! j) = snd (kvs ! j)
           | Some f \<Rightarrow> recElem c False ro et f = (Ok, snd (ys ! j)))"
      by simp
    with Some h r kv show ?thesis by (auto simp: nth_Cons split: nat.splits option.splits)
  qed
qed

text \<open>
  Claim C6 says that the fields of every struct in a slice field and of every struct that
  is a value of a map field are sanitized. A value of a \<open>map[string]T\<close> is reached
  through \<open>MapIndex\<close>, a copy that is not addressable: for \<open>T\<close> with an int32 field
  tagged \<open>min=1,max=10\<close> and holding 0, the first accessor version panics in
  \<open>UnsafeAddr\<close> and the second returns the unsettable handle, on which \<open>SetInt\<close>
  panics. \<open>Sanitize\<close> panics and the 0 stays. The structs of a slice field, and the
  structs behind the pointers of a \<open>map[string]*T\<close>, are addressable and are sanitized.
\<close>

theorem C6_map_values_panic:
  "Sanitize (exampleCtx Part000)
     (Some (TPtr mapStruct, VPtr (Some (VStruct [VMap [(VOther ''k'', VStruct [VInt32 0])]]))))
     = (Panic, Some (TPtr mapStruct, VPtr (Some (VStruct [VMap [(VOther ''k'', VStruct [VInt32 0])]]))))
   \<and> Sanitize (exampleCtx Part001)
     (Some (TPtr mapStruct, VPtr (Some (VStruct [VMap [(VOther ''k'', VStruct [VInt32 0])]]))))
     = (Panic, Some (TPtr mapStruct, VPtr (Some (VStruct [VMap [(VOther ''k'', VStruct [VInt32 0])]]))))
   \<and> Sanitize (exampleCtx Part000)
     (Some (TPtr sliceStruct, VPtr (Some (VStruct [VSlice [VStruct [VInt32 0], VStruct [VInt32 15]]]))))
     = (Ok, Some (TPtr sliceStruct,
                  VPtr (Some (VStruct [VSlice [VStruct [VInt32 1], VStruct [VInt32 10]]]))))
   \<and> Sanitize (exampleCtx Part000)
     (Some (TPtr ptrMapStruct,
            VPtr (Some (VStruct [VMap [(VOther ''k'', VPtr (Some (VStruct [VInt32 0])))]]))))
     = (Ok, Some (TPtr ptrMapStruct,
                  VPtr (Some (VStruct [VMap [(VOther ''k'', VPtr (Some (VStruct [VInt32 1])))]]))))"
  by code_simp






























end
